theory Spec2Isabelle
  imports Complex_Main "HOL-Library.Log_Nat"
begin

section \<open>Storefront client: pricing, checkout and order tracking\<close>

text \<open>
  The three React components that carry the pricing and order-lifecycle logic are embedded
  here: \<open>Cart\<close>, \<open>Checkout\<close> and \<open>OrderTracking\<close>. A component is a record of its
  \<open>useState\<close> cells, its handlers are functions from that record to the updated record and
  the list of effects they issue (remote calls, toasts, navigation), and its render is a
  function from the record to a view.

  JavaScript numbers are IEEE binary64 values and are modelled as such: every arithmetic
  operator rounds its exact result to the nearest double, and every figure of an order
  summary is printed through \<open>toFixed(2)\<close>. Quantities are integers. Strings are compared
  with \<open>=\<close>, as \<open>===\<close> does.
\<close>

subsection \<open>JavaScript numbers\<close>

text \<open>
  A number is a finite double, given by its exact rational value, an infinity or NaN.
  The sign of zero is not tracked: the operators used by these components (\<open>+\<close>, \<open>-\<close>,
  \<open>*\<close>, \<open>>\<close>, \<open>===\<close>, \<open>toFixed\<close>) give the same result for \<open>-0\<close> and \<open>+0\<close>; only a division
  by zero would tell them apart, and the one division in the source divides by 4.
\<close>

datatype number = Fin rat | PosInf | NegInf | NaN

definition pow2 :: "int \<Rightarrow> rat" where
  "pow2 k = (if 0 \<le> k then 2 ^ nat k else 1 / 2 ^ nat (- k))"

text \<open>The binary exponent of a positive rational \<open>a\<close>: \<open>2 ^ e \<le> a < 2 ^ (e + 1)\<close>.\<close>

definition ilog2 :: "rat \<Rightarrow> int" where
  "ilog2 a = (if 1 \<le> a then bitlen \<lfloor>a\<rfloor> - 1 else - bitlen (\<lceil>1 / a\<rceil> - 1))"

definition round_half_even :: "rat \<Rightarrow> int" where
  "round_half_even y =
     (let f = \<lfloor>y\<rfloor>; r = y - of_int f in
      if r < 1 / 2 then f else if 1 / 2 < r then f + 1 else if even f then f else f + 1)"

text \<open>
  Rounding to binary64, to nearest with ties to even: 53 significant bits, the exponent
  not below -1022 (subnormal numbers share the spacing \<open>2 ^ -1074\<close>), and a result of
  \<open>2 ^ 1024\<close> or more is an infinity. Parsing a decimal literal rounds in the same way.
\<close>

definition fl :: "rat \<Rightarrow> number" where
  "fl x =
     (if x = 0 then Fin 0
      else
        let q = pow2 (max (ilog2 \<bar>x\<bar>) (- 1022) - 52);
            y = of_int (round_half_even (\<bar>x\<bar> / q)) * q
        in if 2 ^ 1024 \<le> y then (if 0 < x then PosInf else NegInf)
           else Fin (if 0 < x then y else - y))"

definition num_of_int :: "int \<Rightarrow> number" where
  "num_of_int i = fl (of_int i)"

fun num_neg :: "number \<Rightarrow> number" where
  "num_neg (Fin x) = Fin (- x)"
| "num_neg PosInf = NegInf"
| "num_neg NegInf = PosInf"
| "num_neg NaN = NaN"

fun num_add :: "number \<Rightarrow> number \<Rightarrow> number" where
  "num_add NaN _ = NaN"
| "num_add _ NaN = NaN"
| "num_add PosInf NegInf = NaN"
| "num_add NegInf PosInf = NaN"
| "num_add PosInf _ = PosInf"
| "num_add _ PosInf = PosInf"
| "num_add NegInf _ = NegInf"
| "num_add _ NegInf = NegInf"
| "num_add (Fin x) (Fin y) = fl (x + y)"

text \<open>\<open>a - b\<close> is \<open>a + (-b)\<close>.\<close>

definition num_sub :: "number \<Rightarrow> number \<Rightarrow> number" where
  "num_sub a b = num_add a (num_neg b)"

definition inf_of_sign :: "bool \<Rightarrow> number" where
  "inf_of_sign positive = (if positive then PosInf else NegInf)"

fun num_mul :: "number \<Rightarrow> number \<Rightarrow> number" where
  "num_mul NaN _ = NaN"
| "num_mul _ NaN = NaN"
| "num_mul (Fin x) (Fin y) = fl (x * y)"
| "num_mul (Fin x) PosInf = (if x = 0 then NaN else inf_of_sign (0 < x))"
| "num_mul (Fin x) NegInf = (if x = 0 then NaN else inf_of_sign (x < 0))"
| "num_mul PosInf (Fin y) = (if y = 0 then NaN else inf_of_sign (0 < y))"
| "num_mul NegInf (Fin y) = (if y = 0 then NaN else inf_of_sign (y < 0))"
| "num_mul PosInf PosInf = PosInf"
| "num_mul NegInf NegInf = PosInf"
| "num_mul PosInf NegInf = NegInf"
| "num_mul NegInf PosInf = NegInf"

fun num_div :: "number \<Rightarrow> number \<Rightarrow> number" where
  "num_div NaN _ = NaN"
| "num_div _ NaN = NaN"
| "num_div (Fin x) (Fin y) =
     (if y = 0 then (if x = 0 then NaN else inf_of_sign (0 < x)) else fl (x / y))"
| "num_div (Fin x) PosInf = Fin 0"
| "num_div (Fin x) NegInf = Fin 0"
| "num_div PosInf (Fin y) = inf_of_sign (0 \<le> y)"
| "num_div NegInf (Fin y) = inf_of_sign (y < 0)"
| "num_div PosInf PosInf = NaN"
| "num_div PosInf NegInf = NaN"
| "num_div NegInf PosInf = NaN"
| "num_div NegInf NegInf = NaN"

text \<open>\<open>a > b\<close>: false whenever an operand is NaN.\<close>

fun num_gt :: "number \<Rightarrow> number \<Rightarrow> bool" where
  "num_gt NaN _ = False"
| "num_gt _ NaN = False"
| "num_gt (Fin x) (Fin y) = (y < x)"
| "num_gt PosInf PosInf = False"
| "num_gt PosInf _ = True"
| "num_gt _ PosInf = False"
| "num_gt NegInf _ = False"
| "num_gt _ NegInf = True"

text \<open>\<open>a === b\<close> on numbers: NaN equals nothing, itself included.\<close>

definition num_eq :: "number \<Rightarrow> number \<Rightarrow> bool" where
  "num_eq a b = (a \<noteq> NaN \<and> a = b)"

text \<open>
  The text \<open>x.toFixed(2)\<close>. For a finite \<open>x\<close> of magnitude below \<open>10 ^ 21\<close> it is an
  optional minus sign (when \<open>x < 0\<close>) followed by the decimal digits of the integer \<open>n\<close>
  for which \<open>n / 100\<close> is nearest to the magnitude of \<open>x\<close>, the larger \<open>n\<close> on a tie, with
  the point before the last two digits: \<open>Digits False 2503\<close> is the text \<open>25.03\<close>. Any other
  number is printed as \<open>String(x)\<close>, which is kept as the number itself.
\<close>

datatype shown = Digits bool nat | Plain number

definition toFixed2 :: "number \<Rightarrow> shown" where
  "toFixed2 v =
     (case v of
        Fin x \<Rightarrow>
          if 10 ^ 21 \<le> \<bar>x\<bar> then Plain v
          else Digits (x < 0) (nat \<lfloor>\<bar>x\<bar> * 100 + 1 / 2\<rfloor>)
      | _ \<Rightarrow> Plain v)"

subsection \<open>Data received from the remote store\<close>

record product =
  price :: number
  stock :: int

record cart_item =
  product_id :: string
  quantity :: int
  product :: product

record address =
  address_id :: string
  full_name :: string
  phone :: string
  address_line :: string
  city :: string
  state :: string
  pincode :: string
  is_default :: bool

record order =
  order_id :: string
  status :: string

subsection \<open>Effects\<close>

datatype payload =
    OrderCreate "(string \<times> int) list" address string string
  | ReturnCreate string string
  | CartUpdate string int
  | NoBody

datatype effect =
    ApiGet string
  | ApiPost string payload
  | ApiPut string payload
  | ApiDelete string
  | ToastSuccess string
  | ToastError string
  | Navigate string
  | ConsoleError string

text \<open>
  A remote call either fails, with the optional \<open>error.response.data.detail\<close> of the
  rejection, or answers with its data.
\<close>

type_synonym 'a response = "string option + 'a"

text \<open>\<open>error.response?.data?.detail || fallback\<close>: an absent or empty detail is falsy.\<close>

definition detail_or :: "string option \<Rightarrow> string \<Rightarrow> string" where
  "detail_or d fallback =
     (case d of None \<Rightarrow> fallback | Some s \<Rightarrow> if s = [] then fallback else s)"

definition is_remote :: "effect \<Rightarrow> bool" where
  "is_remote e =
     (case e of ApiGet _ \<Rightarrow> True | ApiPost _ _ \<Rightarrow> True | ApiPut _ _ \<Rightarrow> True
      | ApiDelete _ \<Rightarrow> True | _ \<Rightarrow> False)"

subsection \<open>Pricing, as both pages compute it\<close>

text \<open>
  \<open>cart.items.reduce((sum, item) => sum + item.product.price * item.quantity, 0)\<close> and
  \<open>subtotal > 500 ? 0 : 50\<close>; the two expressions are the same text in \<open>Cart\<close> and in
  \<open>Checkout\<close>.
\<close>

definition subtotal :: "cart_item list \<Rightarrow> number" where
  "subtotal its =
     foldl (\<lambda>sum item. num_add sum (num_mul (price (product item)) (num_of_int (quantity item))))
       (Fin 0) its"

definition shipping :: "number \<Rightarrow> number" where
  "shipping sub = (if num_gt sub (Fin 500) then Fin 0 else Fin 50)"

text \<open>The shipping row: \<open>shipping === 0 ? 'FREE' : shipping.toFixed(2)\<close>.\<close>

datatype shipping_row = Free | Amount shown

definition shipping_shown :: "number \<Rightarrow> shipping_row" where
  "shipping_shown s = (if num_eq s (Fin 0) then Free else Amount (toFixed2 s))"

subsection \<open>The Cart page\<close>

record cart_state =
  cart :: "cart_item list"
  loading :: bool
  discountCode :: string
  discount :: number

definition Cart_init :: cart_state where
  "Cart_init = \<lparr>cart = [], loading = True, discountCode = [], discount = Fin 0\<rparr>"

text \<open>
  \<open>fetchCart\<close> issues its request at once and settles when the answer arrives; a caller
  that does not await it runs on in between.
\<close>

definition fetchCart_settle ::
  "cart_state \<Rightarrow> cart_item list response \<Rightarrow> cart_state \<times> effect list" where
  "fetchCart_settle st res =
     (case res of
        Inr its \<Rightarrow> (st\<lparr>cart := its, loading := False\<rparr>, [])
      | Inl _ \<Rightarrow>
          (st\<lparr>loading := False\<rparr>,
           [ConsoleError ''Failed to fetch cart:'', ToastError ''Failed to load cart'']))"

definition fetchCart :: "cart_state \<Rightarrow> cart_item list response \<Rightarrow> cart_state \<times> effect list" where
  "fetchCart st res =
     (let (st', es) = fetchCart_settle st res in (st', ApiGet ''/cart'' # es))"

definition updateQuantity ::
  "cart_state \<Rightarrow> string \<Rightarrow> int \<Rightarrow> unit response \<Rightarrow> cart_item list response
     \<Rightarrow> cart_state \<times> effect list" where
  "updateQuantity st productId qty putRes getRes =
     (let put = ApiPut ''/cart/update'' (CartUpdate productId qty) in
      case putRes of
        Inl _ \<Rightarrow> (st, [put, ToastError ''Failed to update cart''])
      | Inr _ \<Rightarrow> (let (st', es) = fetchCart st getRes in (st', put # es)))"

definition removeItem ::
  "cart_state \<Rightarrow> string \<Rightarrow> unit response \<Rightarrow> cart_item list response
     \<Rightarrow> cart_state \<times> effect list" where
  "removeItem st productId delRes getRes =
     (let del = ApiDelete (''/cart/remove/'' @ productId) in
      case delRes of
        Inl _ \<Rightarrow> (st, [del, ToastError ''Failed to remove item''])
      | Inr _ \<Rightarrow>
          (let (st', es) = fetchCart_settle st getRes
           in (st', del # ApiGet ''/cart'' # ToastSuccess ''Item removed from cart'' # es)))"

definition setDiscountCode :: "cart_state \<Rightarrow> string \<Rightarrow> cart_state" where
  "setDiscountCode st v = st\<lparr>discountCode := v\<rparr>"

definition applyDiscount :: "cart_state \<Rightarrow> cart_state \<times> effect list" where
  "applyDiscount st =
     (if discountCode st = ''SAVE10''
      then (st\<lparr>discount := num_mul (subtotal (cart st)) (fl (1 / 10))\<rparr>,
            [ToastSuccess ''Discount applied!''])
      else (st, [ToastError ''Invalid discount code'']))"

definition Cart_total :: "cart_state \<Rightarrow> number" where
  "Cart_total st =
     num_sub (num_add (subtotal (cart st)) (shipping (subtotal (cart st)))) (discount st)"

text \<open>
  What the order summary of the cart page shows, each figure through \<open>toFixed(2)\<close>. The
  discount row is rendered under \<open>discount > 0\<close> only.
\<close>

record cart_summary =
  v_subtotal :: shown
  v_shipping :: shipping_row
  v_discount :: "shown option"
  v_total :: shown

datatype cart_view = Spinner | EmptyCart | CartPage cart_summary

definition Cart_render :: "cart_state \<Rightarrow> cart_view" where
  "Cart_render st =
     (if loading st then Spinner
      else if length (cart st) = 0 then EmptyCart
      else CartPage
        \<lparr>v_subtotal = toFixed2 (subtotal (cart st)),
         v_shipping = shipping_shown (shipping (subtotal (cart st))),
         v_discount =
           (if num_gt (discount st) (Fin 0) then Some (toFixed2 (discount st)) else None),
         v_total = toFixed2 (Cart_total st)\<rparr>)"

subsection \<open>The Checkout page\<close>

record checkout_state =
  co_cart :: "cart_item list"
  addresses :: "address list"
  selectedAddress :: "address option"
  paymentMethod :: string
  co_loading :: bool

definition Checkout_init :: checkout_state where
  "Checkout_init =
     \<lparr>co_cart = [], addresses = [], selectedAddress = None, paymentMethod = ''upi'',
      co_loading = False\<rparr>"

text \<open>
  \<open>fetchData\<close> awaits the cart and the profile together; the profile's address list may
  be absent (\<open>profileRes.data.addresses || []\<close>), and the first address, when there is
  one, becomes the selected one.
\<close>

definition fetchData ::
  "checkout_state \<Rightarrow> cart_item list response \<Rightarrow> address list option response
     \<Rightarrow> checkout_state \<times> effect list" where
  "fetchData st cartRes profileRes =
     (let calls = [ApiGet ''/cart'', ApiGet ''/auth/profile''] in
      case (cartRes, profileRes) of
        (Inr its, Inr addrs) \<Rightarrow>
          (let st1 = st\<lparr>co_cart := its,
                        addresses := (case addrs of None \<Rightarrow> [] | Some as \<Rightarrow> as)\<rparr>
           in (case addrs of
                 Some (a # _) \<Rightarrow> (st1\<lparr>selectedAddress := Some a\<rparr>, calls)
               | _ \<Rightarrow> (st1, calls)))
      | _ \<Rightarrow> (st, calls @ [ConsoleError ''Failed to fetch data:'']))"

text \<open>The radio group: \<open>setSelectedAddress(addresses.find(addr => addr.id === id))\<close>.\<close>

definition selectAddressById :: "checkout_state \<Rightarrow> string \<Rightarrow> checkout_state" where
  "selectAddressById st i =
     st\<lparr>selectedAddress := find (\<lambda>addr. address_id addr = i) (addresses st)\<rparr>"

definition setPaymentMethod :: "checkout_state \<Rightarrow> string \<Rightarrow> checkout_state" where
  "setPaymentMethod st m = st\<lparr>paymentMethod := m\<rparr>"

text \<open>
  \<open>placeOrder\<close>: the guard on the selected address, then the order-creation request and,
  if it answers with an order id, the payment request. \<open>finally\<close> clears the loading flag
  on both outcomes.
\<close>

definition create_request :: "checkout_state \<Rightarrow> address \<Rightarrow> effect" where
  "create_request st addr =
     ApiPost ''/orders/create''
       (OrderCreate (map (\<lambda>item. (product_id item, quantity item)) (co_cart st))
          addr (paymentMethod st) ''SAVE10'')"

definition placeOrder ::
  "checkout_state \<Rightarrow> string response \<Rightarrow> unit response \<Rightarrow> checkout_state \<times> effect list" where
  "placeOrder st createRes payRes =
     (case selectedAddress st of
        None \<Rightarrow> (st, [ToastError ''Please select a delivery address''])
      | Some addr \<Rightarrow>
          (let idle = st\<lparr>co_loading := False\<rparr>; create = create_request st addr in
           case createRes of
             Inl d \<Rightarrow> (idle, [create, ToastError (detail_or d ''Failed to place order'')])
           | Inr oid \<Rightarrow>
               (let pay = ApiPost (''/orders/'' @ oid @ ''/payment'') NoBody in
                case payRes of
                  Inl d \<Rightarrow>
                    (idle, [create, pay, ToastError (detail_or d ''Failed to place order'')])
                | Inr _ \<Rightarrow>
                    (idle, [create, pay, ToastSuccess ''Order placed successfully!'',
                            Navigate (''/orders/'' @ oid)]))))"

definition Checkout_discount :: "checkout_state \<Rightarrow> number" where
  "Checkout_discount st = num_mul (subtotal (co_cart st)) (fl (1 / 10))"

definition Checkout_total :: "checkout_state \<Rightarrow> number" where
  "Checkout_total st =
     num_sub (num_add (subtotal (co_cart st)) (shipping (subtotal (co_cart st))))
       (Checkout_discount st)"

record checkout_summary =
  c_subtotal :: shown
  c_shipping :: shipping_row
  c_discount :: shown
  c_total :: shown
  place_order_disabled :: bool

text \<open>
  With no items the render calls \<open>navigate('/cart')\<close> and returns \<open>null\<close>: nothing of the
  page, the place-order button included, is on screen. Otherwise the order summary
  prints each figure through \<open>toFixed(2)\<close>.
\<close>

datatype checkout_view = RedirectTo string | CheckoutPage checkout_summary

definition Checkout_render :: "checkout_state \<Rightarrow> checkout_view" where
  "Checkout_render st =
     (if length (co_cart st) = 0 then RedirectTo ''/cart''
      else CheckoutPage
        \<lparr>c_subtotal = toFixed2 (subtotal (co_cart st)),
         c_shipping = shipping_shown (shipping (subtotal (co_cart st))),
         c_discount = toFixed2 (Checkout_discount st),
         c_total = toFixed2 (Checkout_total st),
         place_order_disabled = (co_loading st \<or> selectedAddress st = None)\<rparr>)"

text \<open>
  A click on the place-order button reaches \<open>placeOrder\<close> only when the button is on
  screen and not disabled.
\<close>

definition clickPlaceOrder ::
  "checkout_state \<Rightarrow> string response \<Rightarrow> unit response \<Rightarrow> checkout_state \<times> effect list" where
  "clickPlaceOrder st createRes payRes =
     (case Checkout_render st of
        RedirectTo _ \<Rightarrow> (st, [])
      | CheckoutPage pg \<Rightarrow>
          if place_order_disabled pg then (st, []) else placeOrder st createRes payRes)"

subsection \<open>The order tracking page\<close>

text \<open>The five stages of the timeline, as (key, label); the icons are left out.\<close>

definition orderStatuses :: "(string \<times> string) list" where
  "orderStatuses =
     [(''ordered'', ''Ordered''),
      (''processed'', ''Processed''),
      (''shipped'', ''Shipped''),
      (''out_for_delivery'', ''Out for Delivery''),
      (''delivered'', ''Delivered'')]"

text \<open>\<open>Array.prototype.findIndex\<close>: the first index whose element satisfies the test, else -1.\<close>

fun findIndex_from :: "('a \<Rightarrow> bool) \<Rightarrow> 'a list \<Rightarrow> int \<Rightarrow> int" where
  "findIndex_from p [] i = - 1"
| "findIndex_from p (x # xs) i = (if p x then i else findIndex_from p xs (i + 1))"

definition findIndex :: "('a \<Rightarrow> bool) \<Rightarrow> 'a list \<Rightarrow> int" where
  "findIndex p xs = findIndex_from p xs 0"

definition getStatusIndex :: "string \<Rightarrow> int" where
  "getStatusIndex st = findIndex (\<lambda>s. fst s = st) orderStatuses"

record stage =
  stage_key :: string
  isCompleted :: bool
  isCurrent :: bool

text \<open>\<open>orderStatuses.map((status, index) => ...)\<close> with the current index.\<close>

definition timeline :: "int \<Rightarrow> stage list" where
  "timeline currentStatusIndex =
     map (\<lambda>(index, s).
            \<lparr>stage_key = fst s,
             isCompleted = (int index \<le> currentStatusIndex),
             isCurrent = (int index = currentStatusIndex)\<rparr>)
         (enumerate 0 orderStatuses)"

record tracking_state =
  route_id :: string
  order :: "order option"
  ot_loading :: bool
  returnReason :: string
  showReturnDialog :: bool

definition OrderTracking_init :: "string \<Rightarrow> tracking_state" where
  "OrderTracking_init i =
     \<lparr>route_id = i, order = None, ot_loading = True, returnReason = [],
      showReturnDialog = False\<rparr>"

definition fetchOrder :: "tracking_state \<Rightarrow> order response \<Rightarrow> tracking_state \<times> effect list" where
  "fetchOrder st res =
     (let get = ApiGet (''/orders/'' @ route_id st) in
      case res of
        Inr ord \<Rightarrow> (st\<lparr>order := Some ord, ot_loading := False\<rparr>, [get])
      | Inl _ \<Rightarrow>
          (st\<lparr>ot_loading := False\<rparr>,
           [get, ConsoleError ''Failed to fetch order:'', ToastError ''Order not found'']))"


record tracking_page =
  stages :: "stage list"
  progress_width :: number
  return_form :: bool
  return_notice :: bool

datatype tracking_view = TrackingSpinner | TrackingNull | TrackingPage tracking_page

definition OrderTracking_render :: "tracking_state \<Rightarrow> tracking_view" where
  "OrderTracking_render st =
     (if ot_loading st then TrackingSpinner
      else case order st of
        None \<Rightarrow> TrackingNull
      | Some ord \<Rightarrow>
          (let currentStatusIndex = getStatusIndex (status ord) in
           TrackingPage
             \<lparr>stages = timeline currentStatusIndex,
              progress_width =
                num_mul
                  (num_div (num_of_int currentStatusIndex)
                     (num_sub (num_of_int (int (length orderStatuses))) (Fin 1)))
                  (Fin 100),
              return_form =
                (status ord = ''delivered'' \<and> status ord \<noteq> ''return_requested''),
              return_notice = (status ord = ''return_requested'')\<rparr>))"


text \<open>The discount code an effect sends, if it is an order-creation request.\<close>

definition discount_code_of :: "effect \<Rightarrow> string option" where
  "discount_code_of e =
     (case e of ApiPost _ (OrderCreate _ _ _ code) \<Rightarrow> Some code | _ \<Rightarrow> None)"

subsection \<open>Scenarios\<close>

text \<open>
  Concrete states, each reached from a component's initial state through its handlers.
\<close>

definition item_p1 :: "number \<Rightarrow> int \<Rightarrow> cart_item" where
  "item_p1 pr q = \<lparr>product_id = ''p1'', quantity = q, product = \<lparr>price = pr, stock = 10\<rparr>\<rparr>"

definition item_p2 :: "number \<Rightarrow> int \<Rightarrow> cart_item" where
  "item_p2 pr q = \<lparr>product_id = ''p2'', quantity = q, product = \<lparr>price = pr, stock = 10\<rparr>\<rparr>"

text \<open>Three at 166.40 and one at 0.80, the prices as parsed from their decimal text.\<close>

definition items_near_500 :: "cart_item list" where
  "items_near_500 = [item_p1 (fl (832 / 5)) 3, item_p2 (fl (4 / 5)) 1]"

definition addr_home :: address where
  "addr_home =
     \<lparr>address_id = ''a1'', full_name = ''A Customer'', phone = ''5550100'',
      address_line = ''1 Main Road'', city = ''Pune'', state = ''MH'', pincode = ''411001'',
      is_default = True\<rparr>"

definition cart_loaded :: "cart_item list \<Rightarrow> cart_state" where
  "cart_loaded its = fst (fetchCart Cart_init (Inr its))"

text \<open>One item at 300, quantity 2; then \<open>SAVE10\<close> typed and applied.\<close>

definition cart_saved :: cart_state where
  "cart_saved =
     fst (applyDiscount (setDiscountCode (cart_loaded [item_p1 (Fin 300) 2]) ''SAVE10''))"

text \<open>After that, the quantity is lowered to 1 and the cart is fetched again.\<close>

definition cart_saved_then_fewer :: cart_state where
  "cart_saved_then_fewer =
     fst (updateQuantity cart_saved ''p1'' 1 (Inr ()) (Inr [item_p1 (Fin 300) 1]))"

definition checkout_loaded :: "cart_item list \<Rightarrow> address list \<Rightarrow> checkout_state" where
  "checkout_loaded its addrs = fst (fetchData Checkout_init (Inr its) (Inr (Some addrs)))"

definition tracking_loaded :: "string \<Rightarrow> tracking_state" where
  "tracking_loaded s =
     fst (fetchOrder (OrderTracking_init ''o1'') (Inr \<lparr>order_id = ''o1'', status = s\<rparr>))"

section \<open>Properties\<close>

subsection \<open>Evaluating numbers\<close>

lemma bitlen_numeral_simps:
  "bitlen 1 = 1"
  "bitlen (numeral (Num.Bit0 n)) = bitlen (numeral n) + 1"
  "bitlen (numeral (Num.Bit1 n)) = bitlen (numeral n) + 1"
proof -
  show "bitlen 1 = 1"
    by (subst compute_bitlen) simp
  show "bitlen (numeral (Num.Bit0 n)) = bitlen (numeral n) + 1"
    by (subst compute_bitlen) simp
  show "bitlen (numeral (Num.Bit1 n)) = bitlen (numeral n) + 1"
    by (subst compute_bitlen) simp
qed

lemma floor_rat_simps:
  "\<lfloor>numeral a / numeral b :: rat\<rfloor> = numeral a div numeral b"
  "\<lfloor>1 / numeral b :: rat\<rfloor> = 1 div numeral b"
  "\<lceil>numeral a / numeral b :: rat\<rceil> = - (- numeral a div numeral b)"
  "\<lceil>1 / numeral b :: rat\<rceil> = - (- 1 div numeral b)"
proof -
  show "\<lfloor>numeral a / numeral b :: rat\<rfloor> = numeral a div numeral b"
    using floor_divide_of_int_eq [of "numeral a" "numeral b", where ?'a = rat] by simp
  show "\<lfloor>1 / numeral b :: rat\<rfloor> = 1 div numeral b"
    using floor_divide_of_int_eq [of 1 "numeral b", where ?'a = rat] by simp
  show "\<lceil>numeral a / numeral b :: rat\<rceil> = - (- numeral a div numeral b)"
    using floor_divide_of_int_eq [of "- numeral a" "numeral b", where ?'a = rat]
    by (simp add: ceiling_def)
  show "\<lceil>1 / numeral b :: rat\<rceil> = - (- 1 div numeral b)"
    using floor_divide_of_int_eq [of "- 1" "numeral b", where ?'a = rat]
    by (simp add: ceiling_def)
qed

lemmas eval_fl = fl_def pow2_def ilog2_def round_half_even_def Let_def bitlen_numeral_simps
  floor_rat_simps

lemmas eval_num = eval_fl num_of_int_def num_sub_def num_eq_def inf_of_sign_def toFixed2_def
  shipping_def shipping_shown_def

text \<open>The literal \<open>0.1\<close> is the double \<open>3602879701896397 / 2 ^ 55\<close>.\<close>

lemma tenth: "fl (1 / 10) = Fin (3602879701896397 / 36028797018963968)"
  by (simp add: eval_fl)

lemma shipping_values:
  "num_gt sub (Fin 500) \<Longrightarrow> shipping sub = Fin 0"
  "\<not> num_gt sub (Fin 500) \<Longrightarrow> shipping sub = Fin 50"
  by (simp_all add: shipping_def)

lemma shipping_shown_values:
  "shipping_shown (Fin 0) = Free"
  "shipping_shown (Fin 50) = Amount (Digits False 5000)"
  by (simp_all add: eval_num)

subsection \<open>Auxiliary facts\<close>

lemma subtotal_Nil: "subtotal [] = Fin 0"
  by (simp add: subtotal_def)

lemma subtotal_snoc:
  "subtotal (its @ [item]) =
     num_add (subtotal its) (num_mul (price (product item)) (num_of_int (quantity item)))"
  by (simp add: subtotal_def)

lemma subtotal_examples:
  "subtotal [item_p1 (Fin 300) 2] = Fin 600"
  "subtotal [item_p1 (Fin 300) 1] = Fin 300"
  "subtotal [item_p1 (Fin 250) 2] = Fin 500"
  "subtotal [item_p1 (Fin 100) 2] = Fin 200"
  "subtotal [item_p1 (Fin (1001 / 4)) 1] = Fin (1001 / 4)"
  "subtotal items_near_500 = Fin (8796093022208001 / 17592186044416)"
  by (simp_all add: subtotal_def item_p1_def item_p2_def items_near_500_def eval_num)

lemma length_items_near_500: "length items_near_500 = 2"
  by (simp add: items_near_500_def)

lemma cart_loaded_simps:
  "cart (cart_loaded its) = its" "loading (cart_loaded its) = False"
  "discount (cart_loaded its) = Fin 0" "discountCode (cart_loaded its) = []"
  by (simp_all add: cart_loaded_def fetchCart_def fetchCart_settle_def Cart_init_def)

lemma cart_saved_simps:
  "cart cart_saved = [item_p1 (Fin 300) 2]" "loading cart_saved = False"
  "discount cart_saved = Fin 60" "discountCode cart_saved = ''SAVE10''"
  by (simp_all add: cart_saved_def applyDiscount_def setDiscountCode_def cart_loaded_simps
      subtotal_examples eval_fl)

lemma cart_saved_then_fewer_simps:
  "cart cart_saved_then_fewer = [item_p1 (Fin 300) 1]" "loading cart_saved_then_fewer = False"
  "discount cart_saved_then_fewer = Fin 60"
  by (simp_all add: cart_saved_then_fewer_def updateQuantity_def fetchCart_def
      fetchCart_settle_def cart_saved_simps)

lemma checkout_loaded_simps:
  "co_cart (checkout_loaded its addrs) = its"
  "selectedAddress (checkout_loaded its addrs) = (case addrs of [] \<Rightarrow> None | a # _ \<Rightarrow> Some a)"
  "paymentMethod (checkout_loaded its addrs) = ''upi''"
  "co_loading (checkout_loaded its addrs) = False"
  by (simp_all add: checkout_loaded_def fetchData_def Checkout_init_def Let_def
      split: list.splits)

lemma Cart_render_examples:
  "Cart_render cart_saved =
     CartPage \<lparr>v_subtotal = Digits False 60000, v_shipping = Free,
               v_discount = Some (Digits False 6000), v_total = Digits False 54000\<rparr>"
  "Cart_render (cart_loaded [item_p1 (Fin 250) 2]) =
     CartPage \<lparr>v_subtotal = Digits False 50000, v_shipping = Amount (Digits False 5000),
               v_discount = None, v_total = Digits False 55000\<rparr>"
  "Cart_render (cart_loaded items_near_500) =
     CartPage \<lparr>v_subtotal = Digits False 50000, v_shipping = Free,
               v_discount = None, v_total = Digits False 50000\<rparr>"
  by (simp_all add: Cart_render_def Cart_total_def cart_saved_simps cart_loaded_simps
      subtotal_examples length_items_near_500 eval_num)

lemma Checkout_render_examples:
  "Checkout_render (checkout_loaded [item_p1 (Fin 100) 2] [addr_home]) =
     CheckoutPage \<lparr>c_subtotal = Digits False 20000, c_shipping = Amount (Digits False 5000),
                   c_discount = Digits False 2000, c_total = Digits False 23000,
                   place_order_disabled = False\<rparr>"
  "Checkout_render (checkout_loaded [item_p1 (Fin 300) 2] [addr_home]) =
     CheckoutPage \<lparr>c_subtotal = Digits False 60000, c_shipping = Free,
                   c_discount = Digits False 6000, c_total = Digits False 54000,
                   place_order_disabled = False\<rparr>"
  "Checkout_render (checkout_loaded [item_p1 (Fin (1001 / 4)) 1] [addr_home]) =
     CheckoutPage \<lparr>c_subtotal = Digits False 25025, c_shipping = Amount (Digits False 5000),
                   c_discount = Digits False 2503, c_total = Digits False 27523,
                   place_order_disabled = False\<rparr>"
  by (simp_all add: Checkout_render_def Checkout_total_def Checkout_discount_def
      checkout_loaded_simps subtotal_examples eval_num)

lemma tracking_loaded_simps:
  "order (tracking_loaded s) = Some \<lparr>order_id = ''o1'', status = s\<rparr>"
  "ot_loading (tracking_loaded s) = False"
  "returnReason (tracking_loaded s) = []"
  "route_id (tracking_loaded s) = ''o1''"
  by (simp_all add: tracking_loaded_def fetchOrder_def OrderTracking_init_def)


lemma length_orderStatuses: "length orderStatuses = 5"
  by (simp add: orderStatuses_def)

lemma keys_orderStatuses:
  "map fst orderStatuses =
     [''ordered'', ''processed'', ''shipped'', ''out_for_delivery'', ''delivered'']"
  by (simp add: orderStatuses_def)

lemma getStatusIndex_linear:
  "getStatusIndex ''ordered'' = 0" "getStatusIndex ''processed'' = 1"
  "getStatusIndex ''shipped'' = 2" "getStatusIndex ''out_for_delivery'' = 3"
  "getStatusIndex ''delivered'' = 4"
  by (simp_all add: getStatusIndex_def findIndex_def orderStatuses_def)

lemma getStatusIndex_side:
  "getStatusIndex ''cancelled'' = - 1" "getStatusIndex ''return_requested'' = - 1"
  by (simp_all add: getStatusIndex_def findIndex_def orderStatuses_def)

lemma timeline_nth:
  "i < length orderStatuses \<Longrightarrow>
     timeline c ! i =
       \<lparr>stage_key = fst (orderStatuses ! i), isCompleted = (int i \<le> c),
        isCurrent = (int i = c)\<rparr>"
  by (simp add: timeline_def nth_enumerate_eq)

lemma length_timeline: "length (timeline c) = 5"
  by (simp add: timeline_def length_orderStatuses)

lemma OrderTracking_render_loaded:
  "\<not> ot_loading st \<Longrightarrow> order st = Some ord \<Longrightarrow>
     \<exists>pg. OrderTracking_render st = TrackingPage pg \<and>
          stages pg = timeline (getStatusIndex (status ord)) \<and>
          return_form pg = (status ord = ''delivered'')"
  by (auto simp: OrderTracking_render_def Let_def)

lemma placeOrder_no_address:
  "selectedAddress st = None \<Longrightarrow>
     placeOrder st createRes payRes = (st, [ToastError ''Please select a delivery address''])"
  by (simp add: placeOrder_def)

lemma placeOrder_effects:
  "selectedAddress st = Some addr \<Longrightarrow>
     \<exists>rest. snd (placeOrder st createRes payRes) = create_request st addr # rest \<and>
            (\<forall>e \<in> set rest. discount_code_of e = None)"
  by (auto simp: placeOrder_def Let_def discount_code_of_def split: sum.splits)



lemma fl_0: "fl 0 = Fin 0"
  by (simp add: fl_def)

lemma fl_50: "fl 50 = Fin 50"
  by (simp add: eval_fl)

subsection \<open>Pricing\<close>

text \<open>
  Claim C1, as the code has it. On both pages the total is computed, in double-precision
  arithmetic, as (subtotal + shipping) - discount, where the subtotal is the
  double-precision sum, taken from left to right, of unit price times quantity (on the
  Cart page the discount is the stored one, which is the one shown whenever the discount
  row is shown). Every figure of the summary is printed through \<open>toFixed(2)\<close>; the total
  shown is the two-decimal rounding of the computed total.
\<close>

theorem summary_figures_computed:
  "(Cart_render st = CartPage v \<longrightarrow>
      v_subtotal v = toFixed2 (subtotal (cart st)) \<and>
      v_shipping v = shipping_shown (shipping (subtotal (cart st))) \<and>
      v_total v =
        toFixed2 (num_sub (num_add (subtotal (cart st)) (shipping (subtotal (cart st))))
                    (discount st))) \<and>
   (Cart_render st = CartPage v \<and> num_gt (discount st) (Fin 0) \<longrightarrow>
      v_discount v = Some (toFixed2 (discount st))) \<and>
   (Checkout_render cs = CheckoutPage w \<longrightarrow>
      c_subtotal w = toFixed2 (subtotal (co_cart cs)) \<and>
      c_shipping w = shipping_shown (shipping (subtotal (co_cart cs))) \<and>
      c_discount w = toFixed2 (Checkout_discount cs) \<and>
      c_total w =
        toFixed2 (num_sub (num_add (subtotal (co_cart cs)) (shipping (subtotal (co_cart cs))))
                    (Checkout_discount cs))) \<and>
   subtotal [] = Fin 0 \<and>
   subtotal (its @ [item]) =
     num_add (subtotal its) (num_mul (price (product item)) (num_of_int (quantity item)))"
proof -
  have cart_page: "Cart_render st = CartPage v \<longrightarrow>
      v_subtotal v = toFixed2 (subtotal (cart st)) \<and>
      v_shipping v = shipping_shown (shipping (subtotal (cart st))) \<and>
      v_total v =
        toFixed2 (num_sub (num_add (subtotal (cart st)) (shipping (subtotal (cart st))))
                    (discount st))"
    by (auto simp: Cart_render_def Cart_total_def split: if_splits)
  have cart_discount: "Cart_render st = CartPage v \<and> num_gt (discount st) (Fin 0) \<longrightarrow>
      v_discount v = Some (toFixed2 (discount st))"
    by (auto simp: Cart_render_def split: if_splits)
  have checkout_page: "Checkout_render cs = CheckoutPage w \<longrightarrow>
      c_subtotal w = toFixed2 (subtotal (co_cart cs)) \<and>
      c_shipping w = shipping_shown (shipping (subtotal (co_cart cs))) \<and>
      c_discount w = toFixed2 (Checkout_discount cs) \<and>
      c_total w =
        toFixed2 (num_sub (num_add (subtotal (co_cart cs)) (shipping (subtotal (co_cart cs))))
                    (Checkout_discount cs))"
    by (auto simp: Checkout_render_def Checkout_total_def split: if_splits)
  from cart_page cart_discount checkout_page subtotal_Nil subtotal_snoc [of its item]
  show ?thesis by blast
qed

theorem summary_figures_computed_witness:
  "Cart_render cart_saved =
     CartPage \<lparr>v_subtotal = Digits False 60000, v_shipping = Free,
               v_discount = Some (Digits False 6000), v_total = Digits False 54000\<rparr> \<and>
   num_gt (discount cart_saved) (Fin 0) \<and>
   Checkout_render (checkout_loaded [item_p1 (Fin 100) 2] [addr_home]) =
     CheckoutPage \<lparr>c_subtotal = Digits False 20000, c_shipping = Amount (Digits False 5000),
                   c_discount = Digits False 2000, c_total = Digits False 23000,
                   place_order_disabled = False\<rparr> \<and>
   toFixed2 (num_sub (num_add (subtotal (cart cart_saved)) (shipping (subtotal (cart cart_saved))))
               (discount cart_saved)) = Digits False 54000 \<and>
   toFixed2 (discount cart_saved) = Digits False 6000 \<and>
   toFixed2 (Checkout_discount (checkout_loaded [item_p1 (Fin 100) 2] [addr_home])) =
     Digits False 2000"
proof -
  have h1: "Cart_render cart_saved =
     CartPage \<lparr>v_subtotal = Digits False 60000, v_shipping = Free,
               v_discount = Some (Digits False 6000), v_total = Digits False 54000\<rparr>"
    by (rule Cart_render_examples)
  have h2: "num_gt (discount cart_saved) (Fin 0)"
    by (simp add: cart_saved_simps)
  have h3: "Checkout_render (checkout_loaded [item_p1 (Fin 100) 2] [addr_home]) =
     CheckoutPage \<lparr>c_subtotal = Digits False 20000, c_shipping = Amount (Digits False 5000),
                   c_discount = Digits False 2000, c_total = Digits False 23000,
                   place_order_disabled = False\<rparr>"
    by (rule Checkout_render_examples)
  note inst = summary_figures_computed
    [of cart_saved
        "\<lparr>v_subtotal = Digits False 60000, v_shipping = Free,
          v_discount = Some (Digits False 6000), v_total = Digits False 54000\<rparr>"
        "checkout_loaded [item_p1 (Fin 100) 2] [addr_home]"
        "\<lparr>c_subtotal = Digits False 20000, c_shipping = Amount (Digits False 5000),
          c_discount = Digits False 2000, c_total = Digits False 23000,
          place_order_disabled = False\<rparr>"
        "[]" "item_p1 (Fin 300) 2"]
  from inst h1 have total:
    "v_total \<lparr>v_subtotal = Digits False 60000, v_shipping = Free,
              v_discount = Some (Digits False 6000), v_total = Digits False 54000\<rparr> =
     toFixed2 (num_sub (num_add (subtotal (cart cart_saved)) (shipping (subtotal (cart cart_saved))))
                 (discount cart_saved))"
    by blast
  from inst h1 h2 have disc:
    "v_discount \<lparr>v_subtotal = Digits False 60000, v_shipping = Free,
                 v_discount = Some (Digits False 6000), v_total = Digits False 54000\<rparr> =
     Some (toFixed2 (discount cart_saved))"
    by blast
  from inst h3 have cdisc:
    "c_discount \<lparr>c_subtotal = Digits False 20000, c_shipping = Amount (Digits False 5000),
                 c_discount = Digits False 2000, c_total = Digits False 23000,
                 place_order_disabled = False\<rparr> =
     toFixed2 (Checkout_discount (checkout_loaded [item_p1 (Fin 100) 2] [addr_home]))"
    by blast
  have t1: "toFixed2 (num_sub (num_add (subtotal (cart cart_saved))
              (shipping (subtotal (cart cart_saved)))) (discount cart_saved)) = Digits False 54000"
    using total [symmetric] by simp
  have t2: "toFixed2 (discount cart_saved) = Digits False 6000"
    using disc [symmetric] by simp
  have t3: "toFixed2 (Checkout_discount (checkout_loaded [item_p1 (Fin 100) 2] [addr_home])) =
     Digits False 2000"
    using cdisc [symmetric] by simp
  from h1 h2 h3 t1 t2 t3 show ?thesis by (intro conjI)
qed

text \<open>
  Claim C1 as stated (the total shown equals the subtotal shown plus the shipping shown
  minus the discount shown) fails by a cent where the roundings disagree: for one item at
  250.25 the Checkout page prints 250.25, 50.00, 25.03 and 275.23, and
  250.25 + 50.00 - 25.03 is 275.22.
\<close>

theorem displayed_figures_do_not_add_up_counterexample:
  "Checkout_render (checkout_loaded [item_p1 (Fin (1001 / 4)) 1] [addr_home]) =
     CheckoutPage \<lparr>c_subtotal = Digits False 25025, c_shipping = Amount (Digits False 5000),
                   c_discount = Digits False 2503, c_total = Digits False 27523,
                   place_order_disabled = False\<rparr> \<and>
   (27523 :: int) \<noteq> 25025 + 5000 - 2503"
  by (simp add: Checkout_render_examples)

text \<open>
  Claim C2. The shipping fee is 0 when the computed subtotal is strictly greater than 500
  and 50 otherwise, for every item sequence; both pages then show FREE, respectively
  50.00; a computed subtotal of exactly 500 gives shipping 50.
\<close>

theorem shipping_threshold:
  "(Cart_render st = CartPage v \<longrightarrow>
      v_shipping v =
        (if num_gt (subtotal (cart st)) (Fin 500) then Free else Amount (Digits False 5000))) \<and>
   (Checkout_render cs = CheckoutPage w \<longrightarrow>
      c_shipping w =
        (if num_gt (subtotal (co_cart cs)) (Fin 500) then Free
         else Amount (Digits False 5000))) \<and>
   (num_gt (subtotal its) (Fin 500) \<longrightarrow> shipping (subtotal its) = Fin 0) \<and>
   (\<not> num_gt (subtotal its) (Fin 500) \<longrightarrow> shipping (subtotal its) = Fin 50) \<and>
   (subtotal its = Fin 500 \<longrightarrow> shipping (subtotal its) = Fin 50)"
proof -
  have cart_page: "Cart_render st = CartPage v \<longrightarrow>
      v_shipping v =
        (if num_gt (subtotal (cart st)) (Fin 500) then Free else Amount (Digits False 5000))"
    by (auto simp: Cart_render_def shipping_values shipping_shown_values split: if_splits)
  have checkout_page: "Checkout_render cs = CheckoutPage w \<longrightarrow>
      c_shipping w =
        (if num_gt (subtotal (co_cart cs)) (Fin 500) then Free
         else Amount (Digits False 5000))"
    by (auto simp: Checkout_render_def shipping_values shipping_shown_values split: if_splits)
  have boundary: "subtotal its = Fin 500 \<longrightarrow> shipping (subtotal its) = Fin 50"
    by (simp add: shipping_def)
  from cart_page checkout_page boundary shipping_values [of "subtotal its"]
  show ?thesis by blast
qed

text \<open>
  The concrete inputs: a subtotal of exactly 500 (shipping 50.00), one of 600 (FREE), and
  three items at 166.40 with one at 0.80, whose computed subtotal is
  500.00000000000006: it prints as 500.00 and ships FREE.
\<close>

theorem shipping_threshold_witness:
  "Cart_render (cart_loaded [item_p1 (Fin 250) 2]) =
     CartPage \<lparr>v_subtotal = Digits False 50000, v_shipping = Amount (Digits False 5000),
               v_discount = None, v_total = Digits False 55000\<rparr> \<and>
   Checkout_render (checkout_loaded [item_p1 (Fin 300) 2] [addr_home]) =
     CheckoutPage \<lparr>c_subtotal = Digits False 60000, c_shipping = Free,
                   c_discount = Digits False 6000, c_total = Digits False 54000,
                   place_order_disabled = False\<rparr> \<and>
   subtotal [item_p1 (Fin 250) 2] = Fin 500 \<and>
   shipping (subtotal [item_p1 (Fin 250) 2]) = Fin 50 \<and>
   num_gt (subtotal [item_p1 (Fin 300) 2]) (Fin 500) \<and>
   shipping (subtotal [item_p1 (Fin 300) 2]) = Fin 0 \<and>
   subtotal items_near_500 = Fin (8796093022208001 / 17592186044416) \<and>
   num_gt (subtotal items_near_500) (Fin 500) \<and>
   shipping (subtotal items_near_500) = Fin 0 \<and>
   Cart_render (cart_loaded items_near_500) =
     CartPage \<lparr>v_subtotal = Digits False 50000, v_shipping = Free,
               v_discount = None, v_total = Digits False 50000\<rparr>"
proof -
  have h1: "Cart_render (cart_loaded [item_p1 (Fin 250) 2]) =
     CartPage \<lparr>v_subtotal = Digits False 50000, v_shipping = Amount (Digits False 5000),
               v_discount = None, v_total = Digits False 55000\<rparr>"
    by (rule Cart_render_examples)
  have h2: "Checkout_render (checkout_loaded [item_p1 (Fin 300) 2] [addr_home]) =
     CheckoutPage \<lparr>c_subtotal = Digits False 60000, c_shipping = Free,
                   c_discount = Digits False 6000, c_total = Digits False 54000,
                   place_order_disabled = False\<rparr>"
    by (rule Checkout_render_examples)
  have h3: "subtotal [item_p1 (Fin 250) 2] = Fin 500"
    by (rule subtotal_examples)
  have h4: "num_gt (subtotal [item_p1 (Fin 300) 2]) (Fin 500)"
    by (simp add: subtotal_examples)
  have h5: "subtotal items_near_500 = Fin (8796093022208001 / 17592186044416)"
    by (rule subtotal_examples)
  have h6: "num_gt (subtotal items_near_500) (Fin 500)"
    by (simp add: subtotal_examples)
  have h7: "Cart_render (cart_loaded items_near_500) =
     CartPage \<lparr>v_subtotal = Digits False 50000, v_shipping = Free,
               v_discount = None, v_total = Digits False 50000\<rparr>"
    by (rule Cart_render_examples)
  from h3 shipping_threshold
    [of "cart_loaded [item_p1 (Fin 250) 2]"
        "\<lparr>v_subtotal = Digits False 50000, v_shipping = Amount (Digits False 5000),
          v_discount = None, v_total = Digits False 55000\<rparr>"
        "checkout_loaded [item_p1 (Fin 300) 2] [addr_home]"
        "\<lparr>c_subtotal = Digits False 60000, c_shipping = Free,
          c_discount = Digits False 6000, c_total = Digits False 54000,
          place_order_disabled = False\<rparr>"
        "[item_p1 (Fin 250) 2]"]
  have c1: "shipping (subtotal [item_p1 (Fin 250) 2]) = Fin 50"
    by blast
  from h4 shipping_threshold
    [of "cart_loaded items_near_500"
        "\<lparr>v_subtotal = Digits False 50000, v_shipping = Free,
          v_discount = None, v_total = Digits False 50000\<rparr>"
        "checkout_loaded [item_p1 (Fin 300) 2] [addr_home]"
        "\<lparr>c_subtotal = Digits False 60000, c_shipping = Free,
          c_discount = Digits False 6000, c_total = Digits False 54000,
          place_order_disabled = False\<rparr>"
        "[item_p1 (Fin 300) 2]"]
  have c2: "shipping (subtotal [item_p1 (Fin 300) 2]) = Fin 0"
    by blast
  from h6 shipping_threshold
    [of "cart_loaded items_near_500"
        "\<lparr>v_subtotal = Digits False 50000, v_shipping = Free,
          v_discount = None, v_total = Digits False 50000\<rparr>"
        "checkout_loaded [item_p1 (Fin 300) 2] [addr_home]"
        "\<lparr>c_subtotal = Digits False 60000, c_shipping = Free,
          c_discount = Digits False 6000, c_total = Digits False 54000,
          place_order_disabled = False\<rparr>"
        items_near_500]
  have c3: "shipping (subtotal items_near_500) = Fin 0"
    by blast
  from h1 h2 h3 c1 h4 c2 h5 h6 c3 h7 show ?thesis by (intro conjI)
qed

text \<open>
  Claim C3, as the code has it. For the empty item sequence the subtotal is 0 and the
  shipping fee is 50, since 0 is not greater than 500. On the Checkout page the discount
  is then 0 and the total 50; on the Cart page the total is 50 minus the stored discount.
  Neither page shows these values: the Checkout page redirects to the cart view and the
  Cart page never renders its order summary.
\<close>

theorem empty_cart_pricing:
  "subtotal [] = Fin 0 \<and> shipping (subtotal []) = Fin 50 \<and>
   (co_cart cs = [] \<longrightarrow>
      Checkout_discount cs = Fin 0 \<and> Checkout_total cs = Fin 50 \<and>
      Checkout_render cs = RedirectTo ''/cart'') \<and>
   (cart st = [] \<longrightarrow>
      Cart_total st = num_sub (Fin 50) (discount st) \<and> (\<forall>v. Cart_render st \<noteq> CartPage v))"
proof -
  have ship: "shipping (Fin 0) = Fin 50"
    by (simp add: shipping_def)
  have disc: "num_mul (Fin 0) (fl (1 / 10)) = Fin 0"
    by (simp add: tenth fl_0)
  have total: "num_sub (Fin 50) (Fin 0) = Fin 50"
    by (simp add: eval_num)
  have checkout: "co_cart cs = [] \<longrightarrow>
      Checkout_discount cs = Fin 0 \<and> Checkout_total cs = Fin 50 \<and>
      Checkout_render cs = RedirectTo ''/cart''"
    by (simp add: Checkout_discount_def Checkout_total_def Checkout_render_def subtotal_Nil
        ship disc fl_50 total)
  have cart_page: "cart st = [] \<longrightarrow>
      Cart_total st = num_sub (Fin 50) (discount st) \<and> (\<forall>v. Cart_render st \<noteq> CartPage v)"
    by (simp add: Cart_total_def Cart_render_def subtotal_Nil ship fl_50)
  from ship checkout cart_page show ?thesis
    by (simp add: subtotal_Nil)
qed

theorem empty_cart_pricing_witness:
  "co_cart (checkout_loaded [] [addr_home]) = [] \<and>
   Checkout_total (checkout_loaded [] [addr_home]) = Fin 50 \<and>
   Checkout_render (checkout_loaded [] [addr_home]) = RedirectTo ''/cart'' \<and>
   cart (cart_loaded []) = [] \<and> Cart_total (cart_loaded []) = Fin 50 \<and>
   Cart_render (cart_loaded []) = EmptyCart"
proof -
  have h1: "co_cart (checkout_loaded [] [addr_home]) = []"
    by (simp add: checkout_loaded_simps)
  have h2: "cart (cart_loaded []) = []"
    by (simp add: cart_loaded_simps)
  have r: "Cart_render (cart_loaded []) = EmptyCart"
    by (simp add: Cart_render_def cart_loaded_simps)
  have z: "num_sub (Fin 50) (discount (cart_loaded [])) = Fin 50"
    by (simp add: cart_loaded_simps eval_num)
  from h1 h2 empty_cart_pricing [of "checkout_loaded [] [addr_home]" "cart_loaded []"]
  have c: "Checkout_total (checkout_loaded [] [addr_home]) = Fin 50 \<and>
      Checkout_render (checkout_loaded [] [addr_home]) = RedirectTo ''/cart'' \<and>
      Cart_total (cart_loaded []) = num_sub (Fin 50) (discount (cart_loaded []))"
    by blast
  from h1 h2 r z c show ?thesis by simp
qed

text \<open>
  Claim C3 as stated (subtotal, shipping, discount and total all 0 for the empty item
  sequence) fails: the shipping fee and the total computed for an empty cart are 50.
\<close>

theorem empty_cart_all_zero_counterexample:
  "\<not> (subtotal [] = Fin 0 \<and> shipping (subtotal []) = Fin 0 \<and>
      Checkout_discount (checkout_loaded [] [addr_home]) = Fin 0 \<and>
      Checkout_total (checkout_loaded [] [addr_home]) = Fin 0)"
  by (simp add: subtotal_Nil shipping_def)

subsection \<open>Discount code\<close>

text \<open>
  Claim C4, as the code has it. On the Cart page, applying a string equal to
  \<open>SAVE10\<close> sets the discount to subtotal times 0.1 and signals success; applying any other
  string signals an invalid code and leaves the discount as it was. So after a string is
  applied to a cart whose discount was 0, the discount is nonzero only if the string was
  \<open>SAVE10\<close>.
\<close>

theorem applyDiscount_effect:
  "(c = ''SAVE10'' \<longrightarrow>
      discount (fst (applyDiscount (setDiscountCode st c))) =
        num_mul (subtotal (cart st)) (fl (1 / 10)) \<and>
      snd (applyDiscount (setDiscountCode st c)) = [ToastSuccess ''Discount applied!'']) \<and>
   (c \<noteq> ''SAVE10'' \<longrightarrow>
      discount (fst (applyDiscount (setDiscountCode st c))) = discount st \<and>
      snd (applyDiscount (setDiscountCode st c)) = [ToastError ''Invalid discount code'']) \<and>
   (discount st = Fin 0 \<and> discount (fst (applyDiscount (setDiscountCode st c))) \<noteq> Fin 0 \<longrightarrow>
      c = ''SAVE10'')"
  by (simp add: applyDiscount_def setDiscountCode_def)

theorem applyDiscount_effect_witness:
  "discount (cart_loaded [item_p1 (Fin 300) 2]) = Fin 0 \<and>
   discount (fst (applyDiscount (setDiscountCode (cart_loaded [item_p1 (Fin 300) 2]) ''SAVE10''))) =
     Fin 60 \<and>
   ''save10'' \<noteq> ''SAVE10'' \<and>
   discount (fst (applyDiscount (setDiscountCode (cart_loaded [item_p1 (Fin 300) 2]) ''save10''))) =
     Fin 0 \<and>
   snd (applyDiscount (setDiscountCode (cart_loaded [item_p1 (Fin 300) 2]) ''save10'')) =
     [ToastError ''Invalid discount code'']"
proof -
  have h1: "discount (cart_loaded [item_p1 (Fin 300) 2]) = Fin 0"
    by (simp add: cart_loaded_simps)
  have h2: "''save10'' \<noteq> ''SAVE10''"
    by simp
  from applyDiscount_effect [of "''SAVE10''" "cart_loaded [item_p1 (Fin 300) 2]"]
  have valid:
    "discount (fst (applyDiscount (setDiscountCode (cart_loaded [item_p1 (Fin 300) 2]) ''SAVE10''))) =
       num_mul (subtotal (cart (cart_loaded [item_p1 (Fin 300) 2]))) (fl (1 / 10))"
    by blast
  from h2 applyDiscount_effect [of "''save10''" "cart_loaded [item_p1 (Fin 300) 2]"]
  have invalid:
    "discount (fst (applyDiscount (setDiscountCode (cart_loaded [item_p1 (Fin 300) 2]) ''save10''))) =
       discount (cart_loaded [item_p1 (Fin 300) 2]) \<and>
     snd (applyDiscount (setDiscountCode (cart_loaded [item_p1 (Fin 300) 2]) ''save10'')) =
       [ToastError ''Invalid discount code'']"
    by blast
  have "num_mul (subtotal (cart (cart_loaded [item_p1 (Fin 300) 2]))) (fl (1 / 10)) = Fin 60"
    by (simp add: cart_loaded_simps subtotal_examples eval_fl)
  with valid have sixty:
    "discount (fst (applyDiscount (setDiscountCode (cart_loaded [item_p1 (Fin 300) 2]) ''SAVE10''))) =
       Fin 60"
    by (rule trans)
  from h1 h2 sixty invalid show ?thesis
    by (intro conjI) simp_all
qed

text \<open>
  Claim C4 as stated (any string other than \<open>SAVE10\<close> leaves the discount at 0) fails once a
  discount is stored: with \<open>SAVE10\<close> applied to a subtotal of 600, applying \<open>BAD\<close> signals an
  invalid code and the discount stays 60.
\<close>

theorem invalid_code_keeps_discount_counterexample:
  "''BAD'' \<noteq> ''SAVE10'' \<and>
   discount (fst (applyDiscount (setDiscountCode cart_saved ''BAD''))) \<noteq> Fin 0 \<and>
   snd (applyDiscount (setDiscountCode cart_saved ''BAD'')) =
     [ToastError ''Invalid discount code'']"
  by (simp add: applyDiscount_def setDiscountCode_def cart_saved_simps)

text \<open>
  Claim C5 asks that the discount shown follows the current items. The Cart page stores
  the amount computed when the code was applied: with \<open>SAVE10\<close> applied to one item at 300,
  quantity 2, and the quantity then lowered to 1, the page shows subtotal 300.00, shipping
  50.00, discount 60.00 and total 290.00, while the new subtotal times 0.1 is 30, which
  would print as 30.00.
\<close>

theorem cart_discount_stale_after_quantity_change:
  "Cart_render cart_saved_then_fewer =
     CartPage \<lparr>v_subtotal = Digits False 30000, v_shipping = Amount (Digits False 5000),
               v_discount = Some (Digits False 6000), v_total = Digits False 29000\<rparr> \<and>
   discount cart_saved_then_fewer = Fin 60 \<and>
   num_mul (subtotal (cart cart_saved_then_fewer)) (fl (1 / 10)) = Fin 30 \<and>
   toFixed2 (num_mul (subtotal (cart cart_saved_then_fewer)) (fl (1 / 10))) = Digits False 3000"
  by (simp add: Cart_render_def Cart_total_def cart_saved_then_fewer_simps subtotal_examples
      eval_num)

subsection \<open>Order status timeline\<close>

text \<open>
  Claim C6. For each of the five linear statuses, the status has an index in the
  five-stage list, and the page of a loaded order in that status renders the five stages
  in order, stage \<open>i\<close> marked completed exactly when \<open>i\<close> is at or before that index and
  marked current exactly when \<open>i\<close> is that index; every later stage is neither completed
  nor current (pending).
\<close>

theorem timeline_linear_status:
  assumes "s \<in> set (map fst orderStatuses)"
  shows "0 \<le> getStatusIndex s \<and> getStatusIndex s < 5 \<and>
         fst (orderStatuses ! nat (getStatusIndex s)) = s \<and>
         length (timeline (getStatusIndex s)) = 5 \<and>
         (\<forall>i < 5.
            isCompleted (timeline (getStatusIndex s) ! i) = (int i \<le> getStatusIndex s) \<and>
            isCurrent (timeline (getStatusIndex s) ! i) = (int i = getStatusIndex s) \<and>
            (getStatusIndex s < int i \<longrightarrow>
               \<not> isCompleted (timeline (getStatusIndex s) ! i) \<and>
               \<not> isCurrent (timeline (getStatusIndex s) ! i))) \<and>
         (\<not> ot_loading st \<and> order st = Some ord \<and> status ord = s \<longrightarrow>
            (\<exists>pg. OrderTracking_render st = TrackingPage pg \<and>
                   length (stages pg) = 5 \<and>
                   (\<forall>i < 5.
                      stage_key (stages pg ! i) = fst (orderStatuses ! i) \<and>
                      isCompleted (stages pg ! i) = (int i \<le> getStatusIndex s) \<and>
                      isCurrent (stages pg ! i) = (int i = getStatusIndex s) \<and>
                      (getStatusIndex s < int i \<longrightarrow>
                         \<not> isCompleted (stages pg ! i) \<and> \<not> isCurrent (stages pg ! i)))))"
proof -
  from assms have "s = ''ordered'' \<or> s = ''processed'' \<or> s = ''shipped'' \<or>
      s = ''out_for_delivery'' \<or> s = ''delivered''"
    unfolding keys_orderStatuses by auto
  then have idx: "0 \<le> getStatusIndex s \<and> getStatusIndex s < 5 \<and>
      fst (orderStatuses ! nat (getStatusIndex s)) = s"
    by (elim disjE) (simp_all add: getStatusIndex_linear orderStatuses_def)
  have len: "length (timeline (getStatusIndex s)) = 5"
    by (rule length_timeline)
  have nth: "\<forall>i < 5. timeline (getStatusIndex s) ! i =
     \<lparr>stage_key = fst (orderStatuses ! i), isCompleted = (int i \<le> getStatusIndex s),
      isCurrent = (int i = getStatusIndex s)\<rparr>"
    by (simp add: timeline_nth length_orderStatuses)
  then have marks: "\<forall>i < 5.
      stage_key (timeline (getStatusIndex s) ! i) = fst (orderStatuses ! i) \<and>
      isCompleted (timeline (getStatusIndex s) ! i) = (int i \<le> getStatusIndex s) \<and>
      isCurrent (timeline (getStatusIndex s) ! i) = (int i = getStatusIndex s) \<and>
      (getStatusIndex s < int i \<longrightarrow>
         \<not> isCompleted (timeline (getStatusIndex s) ! i) \<and>
         \<not> isCurrent (timeline (getStatusIndex s) ! i))"
    by simp
  have page: "\<not> ot_loading st \<and> order st = Some ord \<and> status ord = s \<longrightarrow>
      (\<exists>pg. OrderTracking_render st = TrackingPage pg \<and>
             length (stages pg) = 5 \<and>
             (\<forall>i < 5.
                stage_key (stages pg ! i) = fst (orderStatuses ! i) \<and>
                isCompleted (stages pg ! i) = (int i \<le> getStatusIndex s) \<and>
                isCurrent (stages pg ! i) = (int i = getStatusIndex s) \<and>
                (getStatusIndex s < int i \<longrightarrow>
                   \<not> isCompleted (stages pg ! i) \<and> \<not> isCurrent (stages pg ! i))))"
  proof
    assume a: "\<not> ot_loading st \<and> order st = Some ord \<and> status ord = s"
    then obtain pg where pg: "OrderTracking_render st = TrackingPage pg"
      and st: "stages pg = timeline (getStatusIndex (status ord))"
      using OrderTracking_render_loaded [of st ord] by blast
    from a st have "stages pg = timeline (getStatusIndex s)"
      by simp
    with pg len marks show "\<exists>pg. OrderTracking_render st = TrackingPage pg \<and>
             length (stages pg) = 5 \<and>
             (\<forall>i < 5.
                stage_key (stages pg ! i) = fst (orderStatuses ! i) \<and>
                isCompleted (stages pg ! i) = (int i \<le> getStatusIndex s) \<and>
                isCurrent (stages pg ! i) = (int i = getStatusIndex s) \<and>
                (getStatusIndex s < int i \<longrightarrow>
                   \<not> isCompleted (stages pg ! i) \<and> \<not> isCurrent (stages pg ! i)))"
      by auto
  qed
  from marks have marks': "\<forall>i < 5.
      isCompleted (timeline (getStatusIndex s) ! i) = (int i \<le> getStatusIndex s) \<and>
      isCurrent (timeline (getStatusIndex s) ! i) = (int i = getStatusIndex s) \<and>
      (getStatusIndex s < int i \<longrightarrow>
         \<not> isCompleted (timeline (getStatusIndex s) ! i) \<and>
         \<not> isCurrent (timeline (getStatusIndex s) ! i))"
    by blast
  from idx len marks' page show ?thesis by (intro conjI) simp_all
qed

theorem timeline_linear_status_witness:
  "''shipped'' \<in> set (map fst orderStatuses) \<and> getStatusIndex ''shipped'' = 2 \<and>
   \<not> ot_loading (tracking_loaded ''shipped'') \<and>
   order (tracking_loaded ''shipped'') = Some \<lparr>order_id = ''o1'', status = ''shipped''\<rparr> \<and>
   (\<exists>pg. OrderTracking_render (tracking_loaded ''shipped'') = TrackingPage pg \<and>
          length (stages pg) = 5 \<and>
          isCompleted (stages pg ! 2) \<and> isCurrent (stages pg ! 2) \<and>
          isCompleted (stages pg ! 1) \<and> \<not> isCurrent (stages pg ! 1) \<and>
          \<not> isCompleted (stages pg ! 3) \<and> \<not> isCurrent (stages pg ! 3)) \<and>
   map isCompleted (timeline (getStatusIndex ''shipped'')) = [True, True, True, False, False] \<and>
   map isCurrent (timeline (getStatusIndex ''shipped'')) = [False, False, True, False, False]"
proof -
  have h: "''shipped'' \<in> set (map fst orderStatuses)"
    by (simp add: orderStatuses_def)
  have l: "\<not> ot_loading (tracking_loaded ''shipped'') \<and>
      order (tracking_loaded ''shipped'') = Some \<lparr>order_id = ''o1'', status = ''shipped''\<rparr> \<and>
      status \<lparr>order_id = ''o1'', status = ''shipped''\<rparr> = ''shipped''"
    by (simp add: tracking_loaded_simps)
  have i: "getStatusIndex ''shipped'' = 2"
    by (rule getStatusIndex_linear)
  have t: "map isCompleted (timeline 2) = [True, True, True, False, False] \<and>
           map isCurrent (timeline 2) = [False, False, True, False, False]"
    by (simp add: timeline_def orderStatuses_def)
  from l timeline_linear_status
    [OF h, of "tracking_loaded ''shipped''" "\<lparr>order_id = ''o1'', status = ''shipped''\<rparr>"]
  obtain pg where pg: "OrderTracking_render (tracking_loaded ''shipped'') = TrackingPage pg"
    and len: "length (stages pg) = 5"
    and marks: "\<forall>i < 5.
        stage_key (stages pg ! i) = fst (orderStatuses ! i) \<and>
        isCompleted (stages pg ! i) = (int i \<le> getStatusIndex ''shipped'') \<and>
        isCurrent (stages pg ! i) = (int i = getStatusIndex ''shipped'') \<and>
        (getStatusIndex ''shipped'' < int i \<longrightarrow>
           \<not> isCompleted (stages pg ! i) \<and> \<not> isCurrent (stages pg ! i))"
    by blast
  from marks i have m:
    "isCompleted (stages pg ! 2) \<and> isCurrent (stages pg ! 2) \<and>
     isCompleted (stages pg ! 1) \<and> \<not> isCurrent (stages pg ! 1) \<and>
     \<not> isCompleted (stages pg ! 3) \<and> \<not> isCurrent (stages pg ! 3)"
    by simp
  from pg len m have page:
    "\<exists>pg. OrderTracking_render (tracking_loaded ''shipped'') = TrackingPage pg \<and>
          length (stages pg) = 5 \<and>
          isCompleted (stages pg ! 2) \<and> isCurrent (stages pg ! 2) \<and>
          isCompleted (stages pg ! 1) \<and> \<not> isCurrent (stages pg ! 1) \<and>
          \<not> isCompleted (stages pg ! 3) \<and> \<not> isCurrent (stages pg ! 3)"
    by blast
  from h i l page t show ?thesis by simp
qed

text \<open>
  Claim C7. For the side statuses \<open>cancelled\<close> and \<open>return_requested\<close> the index lookup
  returns -1, the timeline still has its five stages, none of them completed or current,
  and a loaded order in such a status renders as the tracking page with that timeline.
\<close>

theorem timeline_side_status:
  assumes "s = ''cancelled'' \<or> s = ''return_requested''"
  shows "getStatusIndex s = - 1 \<and>
         length (timeline (getStatusIndex s)) = 5 \<and>
         (\<forall>g \<in> set (timeline (getStatusIndex s)). \<not> isCompleted g \<and> \<not> isCurrent g) \<and>
         (ot_loading st = False \<and> order st = Some ord \<and> status ord = s \<longrightarrow>
            (\<exists>pg. OrderTracking_render st = TrackingPage pg \<and>
                   stages pg = timeline (- 1)))"
proof -
  from assms have idx: "getStatusIndex s = - 1"
    by (auto simp: getStatusIndex_side)
  have none: "\<forall>g \<in> set (timeline (- 1)). \<not> isCompleted g \<and> \<not> isCurrent g"
    by (simp add: timeline_def orderStatuses_def)
  from idx have page: "ot_loading st = False \<and> order st = Some ord \<and> status ord = s \<longrightarrow>
      (\<exists>pg. OrderTracking_render st = TrackingPage pg \<and> stages pg = timeline (- 1))"
    using OrderTracking_render_loaded [of st ord] by auto
  from idx none page show ?thesis by (simp add: length_timeline)
qed

theorem timeline_side_status_witness:
  "ot_loading (tracking_loaded ''cancelled'') = False \<and>
   order (tracking_loaded ''cancelled'') = Some \<lparr>order_id = ''o1'', status = ''cancelled''\<rparr> \<and>
   getStatusIndex ''cancelled'' = - 1 \<and>
   (\<exists>pg. OrderTracking_render (tracking_loaded ''cancelled'') = TrackingPage pg \<and>
          stages pg = timeline (- 1)) \<and>
   map isCompleted (timeline (- 1)) = [False, False, False, False, False] \<and>
   map isCurrent (timeline (- 1)) = [False, False, False, False, False]"
proof -
  have h: "''cancelled'' = ''cancelled'' \<or> ''cancelled'' = ''return_requested''"
    by simp
  have l: "ot_loading (tracking_loaded ''cancelled'') = False \<and>
      order (tracking_loaded ''cancelled'') = Some \<lparr>order_id = ''o1'', status = ''cancelled''\<rparr>"
    by (simp add: tracking_loaded_simps)
  have t: "map isCompleted (timeline (- 1)) = [False, False, False, False, False] \<and>
           map isCurrent (timeline (- 1)) = [False, False, False, False, False]"
    by (simp add: timeline_def orderStatuses_def)
  show ?thesis
    using l t
      timeline_side_status
        [OF h, of "tracking_loaded ''cancelled''" "\<lparr>order_id = ''o1'', status = ''cancelled''\<rparr>"]
    by simp
qed

subsection \<open>Checkout\<close>

text \<open>
  Claim C8. With no address selected, \<open>placeOrder\<close> reports the validation error, leaves
  the state as it was and issues no remote call. With an empty cart the Checkout page
  redirects to the cart view, and placing an order from it does nothing.
\<close>

theorem placeOrder_preconditions:
  "(selectedAddress st = None \<longrightarrow>
      placeOrder st createRes payRes = (st, [ToastError ''Please select a delivery address'']) \<and>
      \<not> list_ex is_remote (snd (placeOrder st createRes payRes))) \<and>
   (co_cart st = [] \<longrightarrow>
      Checkout_render st = RedirectTo ''/cart'' \<and>
      clickPlaceOrder st createRes payRes = (st, []))"
  by (simp add: placeOrder_no_address is_remote_def Checkout_render_def clickPlaceOrder_def)

theorem placeOrder_preconditions_witness:
  "selectedAddress (checkout_loaded [item_p1 (Fin 300) 2] []) = None \<and>
   placeOrder (checkout_loaded [item_p1 (Fin 300) 2] []) (Inr ''o1'') (Inr ()) =
     (checkout_loaded [item_p1 (Fin 300) 2] [],
      [ToastError ''Please select a delivery address'']) \<and>
   co_cart (checkout_loaded [] [addr_home]) = [] \<and>
   Checkout_render (checkout_loaded [] [addr_home]) = RedirectTo ''/cart'' \<and>
   clickPlaceOrder (checkout_loaded [] [addr_home]) (Inr ''o1'') (Inr ()) =
     (checkout_loaded [] [addr_home], [])"
proof -
  have h1: "selectedAddress (checkout_loaded [item_p1 (Fin 300) 2] []) = None"
    by (simp add: checkout_loaded_simps)
  have h2: "co_cart (checkout_loaded [] [addr_home]) = []"
    by (simp add: checkout_loaded_simps)
  show ?thesis
    using h1 h2
      placeOrder_preconditions
        [of "checkout_loaded [item_p1 (Fin 300) 2] []" "Inr ''o1''" "Inr ()"]
      placeOrder_preconditions [of "checkout_loaded [] [addr_home]" "Inr ''o1''" "Inr ()"]
    by simp
qed

text \<open>
  Claim C10. For a non-empty cart the Checkout page shows, as its discount, the subtotal
  times 0.1 (each printed to two decimals), and the order-creation request, the first
  effect of \<open>placeOrder\<close> once an address is selected, carries the discount code \<open>SAVE10\<close>; no
  effect of \<open>placeOrder\<close> carries another code. The Checkout state holds no discount code,
  so nothing the user typed or applied on the Cart page enters either value.
\<close>

theorem checkout_discount_unconditional:
  "(co_cart st \<noteq> [] \<longrightarrow>
      (\<exists>pg. Checkout_render st = CheckoutPage pg \<and>
             c_subtotal pg = toFixed2 (subtotal (co_cart st)) \<and>
             c_discount pg = toFixed2 (num_mul (subtotal (co_cart st)) (fl (1 / 10))))) \<and>
   (selectedAddress st = Some addr \<longrightarrow>
      hd (snd (placeOrder st createRes payRes)) =
        ApiPost ''/orders/create''
          (OrderCreate (map (\<lambda>item. (product_id item, quantity item)) (co_cart st))
             addr (paymentMethod st) ''SAVE10'')) \<and>
   (\<forall>e \<in> set (snd (placeOrder st createRes payRes)).
      discount_code_of e = None \<or> discount_code_of e = Some ''SAVE10'')"
proof -
  have page: "co_cart st \<noteq> [] \<longrightarrow>
      (\<exists>pg. Checkout_render st = CheckoutPage pg \<and>
             c_subtotal pg = toFixed2 (subtotal (co_cart st)) \<and>
             c_discount pg = toFixed2 (num_mul (subtotal (co_cart st)) (fl (1 / 10))))"
    by (simp add: Checkout_render_def Checkout_discount_def)
  have first: "selectedAddress st = Some addr \<longrightarrow>
      hd (snd (placeOrder st createRes payRes)) = create_request st addr"
    using placeOrder_effects [of st addr createRes payRes] by auto
  have every: "\<forall>e \<in> set (snd (placeOrder st createRes payRes)).
      discount_code_of e = None \<or> discount_code_of e = Some ''SAVE10''"
  proof (cases "selectedAddress st")
    case None
    then show ?thesis by (simp add: placeOrder_no_address discount_code_of_def)
  next
    case (Some a)
    from placeOrder_effects [OF Some, of createRes payRes] show ?thesis
      by (auto simp: create_request_def discount_code_of_def)
  qed
  from page first every show ?thesis by (simp add: create_request_def)
qed

theorem checkout_discount_unconditional_witness:
  "co_cart (checkout_loaded [item_p1 (Fin 300) 2] [addr_home]) \<noteq> [] \<and>
   selectedAddress (checkout_loaded [item_p1 (Fin 300) 2] [addr_home]) = Some addr_home \<and>
   toFixed2 (num_mul (subtotal (co_cart (checkout_loaded [item_p1 (Fin 300) 2] [addr_home])))
               (fl (1 / 10))) = Digits False 6000 \<and>
   hd (snd (placeOrder (checkout_loaded [item_p1 (Fin 300) 2] [addr_home]) (Inr ''o1'') (Inr ()))) =
     ApiPost ''/orders/create'' (OrderCreate [(''p1'', 2)] addr_home ''upi'' ''SAVE10'') \<and>
   list_all (\<lambda>e. discount_code_of e = None \<or> discount_code_of e = Some ''SAVE10'')
     (snd (placeOrder (checkout_loaded [item_p1 (Fin 300) 2] [addr_home]) (Inr ''o1'') (Inr ())))"
proof -
  have h1: "co_cart (checkout_loaded [item_p1 (Fin 300) 2] [addr_home]) \<noteq> []"
    by (simp add: checkout_loaded_simps)
  have h2: "selectedAddress (checkout_loaded [item_p1 (Fin 300) 2] [addr_home]) = Some addr_home"
    by (simp add: checkout_loaded_simps)
  have d: "toFixed2 (num_mul (subtotal (co_cart (checkout_loaded [item_p1 (Fin 300) 2] [addr_home])))
               (fl (1 / 10))) = Digits False 6000"
    by (simp add: checkout_loaded_simps subtotal_examples eval_num)
  show ?thesis
    using h1 h2 d
      checkout_discount_unconditional
        [of "checkout_loaded [item_p1 (Fin 300) 2] [addr_home]" addr_home "Inr ''o1''" "Inr ()"]
    by (simp add: checkout_loaded_simps item_p1_def list_all_iff)
qed

subsection \<open>Return request\<close>




end
